theory Spec2Isabelle
  imports Main "HOL-Library.Sublist"
begin

section \<open>Data model (types.ts and the shapes ChatWidget reads)\<close>

text \<open>
  Strings are \<^typ>\<open>string\<close>: each \<^typ>\<open>char\<close> stands for one code unit in the range
  0..255. Exceptions are values of \<open>exn\<close>; a computation that may throw returns
  \<open>exn + 'a\<close> with \<open>Inl\<close> for the throw.
\<close>

datatype exn = SecurityError | SyntaxError | TypeError | ApiError string

datatype Role = User | Model | Error

record Source =
  uri :: string
  title :: string

text \<open>The optional field \<open>sources?\<close> is \<open>None\<close> when the property is undefined.\<close>

record Message =
  role :: Role
  content :: string
  sources :: "Source list option"

text \<open>
  The turn shape handed to \<open>ai.chats.create\<close>:
  \<^verbatim>\<open>{ role: msg.role as 'user' | 'model', parts: [{ text: msg.content }] }\<close>.
  The cast does not change the value, so the role keeps the type \<^typ>\<open>Role\<close>.
\<close>

record Part =
  part_text :: string

record Content =
  turn_role :: Role
  parts :: "Part list"

record ChatConfig =
  systemInstruction :: string
  googleSearch :: bool

record CreateChatParameters =
  model :: string
  history :: "Content list"
  config :: ChatConfig

text \<open>
  The response of \<open>chat.sendMessage\<close>, as far as \<open>handleSendMessage\<close> reads it
  through its optional chaining: every link that may be undefined is an option.
\<close>

record GroundingChunkWeb =
  web_uri :: "string option"
  web_title :: "string option"

record GroundingChunk =
  web :: "GroundingChunkWeb option"

record GroundingMetadata =
  groundingChunks :: "GroundingChunk list option"

record Candidate =
  groundingMetadata :: "GroundingMetadata option"

record GenerateContentResponse =
  response_text :: string
  candidates :: "Candidate list option"

text \<open>How the awaited \<open>sendMessage\<close> promise settles.\<close>

datatype outcome = Resolves GenerateContentResponse | Rejects exn

text \<open>The speech-recognition events, as the interfaces at the top of ChatWidget declare them.\<close>

record SpeechRecognitionAlternative =
  transcript :: string

record SpeechRecognitionEvent =
  results :: "SpeechRecognitionAlternative list list"

record SpeechRecognitionErrorEvent =
  error :: string

text \<open>
  The component state: the four \<open>useState\<close> cells the claims are about and the
  \<open>chatRef\<close> cell. The session handle is opaque, so its type is a parameter.
\<close>

record 'chat ChatWidget =
  messages :: "Message list"
  userInput :: string
  isLoading :: bool
  isRecording :: bool
  chatRef :: "'chat option"

section \<open>Values read from persisted storage\<close>

text \<open>
  What \<open>JSON.parse\<close> can return. The loader only asks whether the value is an array
  and how long it is; numeric payloads are never inspected.
\<close>

datatype jsvalue =
    JNull
  | JBoolean bool
  | JNumber int
  | JString string
  | JArray "jsvalue list"
  | JObject "(string \<times> jsvalue) list"

text \<open>
  \<open>sessionStorage\<close>: access can be denied by the browser, in which case \<open>getItem\<close>
  throws; otherwise it holds key/value pairs and \<open>getItem\<close> returns the value or null.
\<close>

datatype Storage = Denied | Items "(string \<times> string) list"

fun getItem :: "Storage \<Rightarrow> string \<Rightarrow> exn + string option" where
  "getItem Denied k = Inl SecurityError"
| "getItem (Items kvs) k = Inr (map_of kvs k)"

definition try_catch :: "exn + 'a \<Rightarrow> (exn \<Rightarrow> exn + 'a) \<Rightarrow> exn + 'a" where
  "try_catch body handler = (case body of Inl e \<Rightarrow> handler e | Inr v \<Rightarrow> Inr v)"

text \<open>A Message as a JavaScript object; an undefined \<open>sources\<close> has no property.\<close>

definition Source_value :: "Source \<Rightarrow> jsvalue" where
  "Source_value src = JObject [(''uri'', JString (uri src)), (''title'', JString (title src))]"

definition Role_value :: "Role \<Rightarrow> jsvalue" where
  "Role_value r = JString (case r of User \<Rightarrow> ''user'' | Model \<Rightarrow> ''model'' | Error \<Rightarrow> ''error'')"

definition Message_value :: "Message \<Rightarrow> jsvalue" where
  "Message_value m =
     JObject ([(''role'', Role_value (role m)), (''content'', JString (content m))] @
              (case sources m of
                 None \<Rightarrow> []
               | Some srcs \<Rightarrow> [(''sources'', JArray (map Source_value srcs))]))"

definition initialMessage :: Message where
  "initialMessage =
     \<lparr>role = Model,
      content = ''Hello! Welcome to ASASQS. I'm your friendly ASAS-QS AI Assistant. How can I help you with our quantity surveying services today?'',
      sources = None\<rparr>"

text \<open>
  The initializer of the \<open>messages\<close> state. \<open>JSON.parse\<close> is a parameter: it returns
  the parsed value or throws. \<open>if (savedMessages)\<close> is false for null and for the
  empty string. The parsed array is returned as it is.
\<close>

definition load_messages ::
  "Storage \<Rightarrow> (string \<Rightarrow> exn + jsvalue) \<Rightarrow> exn + jsvalue list" where
  "load_messages storage JSON_parse =
     try_catch
       (case getItem storage ''chatWidgetMessages'' of
          Inl e \<Rightarrow> Inl e
        | Inr savedMessages \<Rightarrow>
            (case savedMessages of
               None \<Rightarrow> Inr [Message_value initialMessage]
             | Some saved \<Rightarrow>
                 if saved \<noteq> [] then
                   (case JSON_parse saved of
                      Inl e \<Rightarrow> Inl e
                    | Inr (JArray parsed) \<Rightarrow>
                        if length parsed > 0 then Inr parsed
                        else Inr [Message_value initialMessage]
                    | Inr _ \<Rightarrow> Inr [Message_value initialMessage])
                 else Inr [Message_value initialMessage]))
       (\<lambda>e. Inr [Message_value initialMessage])"

text \<open>A stand-in for \<open>JSON.parse\<close> that knows one document and rejects every other text.\<close>

definition parse_only :: "string \<Rightarrow> jsvalue \<Rightarrow> string \<Rightarrow> exn + jsvalue" where
  "parse_only doc v s = (if s = doc then Inr v else Inl SyntaxError)"

section \<open>Session initialisation\<close>

definition initChat_history :: "Message list \<Rightarrow> Content list" where
  "initChat_history msgs =
     map (\<lambda>msg. \<lparr>turn_role = role msg, parts = [\<lparr>part_text = content msg\<rparr>]\<rparr>)
         (filter (\<lambda>msg. role msg = User \<or> role msg = Model) msgs)"

definition initChat_systemInstruction :: string where
  "initChat_systemInstruction = ''You are the ASAS-QS AI Assistant, a friendly and professional customer assistant for ASASQS, a consulting Quantity Surveying firm based in Malaysia with the website www.asasqs.com.my. Your goal is to help users with their questions about ASASQS's services, company profile, and projects. The main services include Pre-Contract Services (like feasibility studies and cost planning), Post-Contract Services (like contract administration and final accounts), and Specialized Services (like due diligence and value engineering). Keep your answers concise, helpful, and polite. Do not make up information if you do not know the answer. If a user asks for a quote or detailed consultation, you should advise them to contact ASASQS directly through the contact information provided on their website.''"

definition initChat_parameters :: "Message list \<Rightarrow> CreateChatParameters" where
  "initChat_parameters msgs =
     \<lparr>model = ''gemini-2.5-flash'',
      history = initChat_history msgs,
      config = \<lparr>systemInstruction = initChat_systemInstruction, googleSearch = True\<rparr>\<rparr>"

definition initChat_errorMessage :: Message where
  "initChat_errorMessage =
     \<lparr>role = Error,
      content = ''Failed to initialize the chat assistant. Please check the API key and configuration.'',
      sources = None\<rparr>"

text \<open>
  \<open>initChat\<close>. The constructor \<open>new GoogleGenAI\<close> and \<open>ai.chats.create\<close> belong to
  the SDK and are parameters; either may throw. \<open>apiKey\<close> is \<open>process.env.API_KEY\<close>.
  On success the handle is stored in \<open>chatRef\<close>; the catch block appends one message
  and does not assign \<open>chatRef\<close>.
\<close>

definition initChat ::
  "(string option \<Rightarrow> exn + 'ai) \<Rightarrow> ('ai \<Rightarrow> CreateChatParameters \<Rightarrow> exn + 'chat) \<Rightarrow>
   string option \<Rightarrow> 'chat ChatWidget \<Rightarrow> exn + 'chat ChatWidget" where
  "initChat new_GoogleGenAI chats_create apiKey s =
     try_catch
       (case new_GoogleGenAI apiKey of
          Inl e \<Rightarrow> Inl e
        | Inr ai \<Rightarrow>
            (case chats_create ai (initChat_parameters (messages s)) of
               Inl e \<Rightarrow> Inl e
             | Inr chat \<Rightarrow> Inr (s\<lparr>chatRef := Some chat\<rparr>)))
       (\<lambda>error. Inr (s\<lparr>messages := messages s @ [initChat_errorMessage]\<rparr>))"

text \<open>
  The state at mount, before the effects run: \<open>useState(false)\<close>, \<open>useState('')\<close>,
  \<open>useRef(null)\<close>, and the loaded messages.
\<close>

definition mounted :: "Message list \<Rightarrow> 'chat ChatWidget" where
  "mounted msgs =
     \<lparr>messages = msgs, userInput = [], isLoading = False, isRecording = False, chatRef = None\<rparr>"

section \<open>Voice input\<close>

text \<open>\<open>event.results[0][0].transcript\<close>: reading a property of undefined throws.\<close>

definition first_transcript :: "SpeechRecognitionEvent \<Rightarrow> exn + string" where
  "first_transcript event =
     (case results event of
        [] \<Rightarrow> Inl TypeError
      | r # _ \<Rightarrow> (case r of [] \<Rightarrow> Inl TypeError | alt # _ \<Rightarrow> Inr (transcript alt)))"

definition onresult :: "SpeechRecognitionEvent \<Rightarrow> 'chat ChatWidget \<Rightarrow> exn + 'chat ChatWidget" where
  "onresult event s =
     (case first_transcript event of
        Inl e \<Rightarrow> Inl e
      | Inr t \<Rightarrow>
          Inr (s\<lparr>userInput := (if userInput s \<noteq> [] then userInput s @ '' '' else []) @ t\<rparr>))"

definition onstart :: "'chat ChatWidget \<Rightarrow> 'chat ChatWidget" where
  "onstart s = s\<lparr>isRecording := True\<rparr>"

definition onend :: "'chat ChatWidget \<Rightarrow> 'chat ChatWidget" where
  "onend s = s\<lparr>isRecording := False\<rparr>"

definition onerror_message :: Message where
  "onerror_message =
     \<lparr>role = Error,
      content = ''Microphone access was denied. Please allow it in your browser settings to use voice input.'',
      sources = None\<rparr>"

definition onerror :: "SpeechRecognitionErrorEvent \<Rightarrow> 'chat ChatWidget \<Rightarrow> 'chat ChatWidget" where
  "onerror event s =
     (let s1 = (if error event = ''not-allowed''
                then s\<lparr>messages := messages s @ [onerror_message]\<rparr>
                else s)
      in s1\<lparr>isRecording := False\<rparr>)"

section \<open>Conversation controller\<close>

text \<open>
  \<open>String.prototype.trim\<close> removes white space and line terminators from both ends.
  Within the code units a \<^typ>\<open>char\<close> holds these are TAB, LF, VT, FF, CR, SPACE and
  NO-BREAK SPACE.
\<close>

definition isWhiteSpace :: "char \<Rightarrow> bool" where
  "isWhiteSpace c = (c \<in> {CHR 0x09, CHR 0x0A, CHR 0x0B, CHR 0x0C, CHR 0x0D, CHR 0x20, CHR 0xA0})"

definition trim :: "string \<Rightarrow> string" where
  "trim s = rev (dropWhile isWhiteSpace (rev (dropWhile isWhiteSpace s)))"

definition onChange :: "string \<Rightarrow> 'chat ChatWidget \<Rightarrow> 'chat ChatWidget" where
  "onChange v s = s\<lparr>userInput := v\<rparr>"

text \<open>
  \<open>handleSendMessage\<close> is a \<open>useCallback\<close> closure with dependencies
  \<open>[userInput, isLoading]\<close>: inside it, \<open>userInput\<close> and \<open>isLoading\<close> are the values of
  the render that created the callback, and they stay so until the component renders
  again. \<open>render\<close> captures them from the current state.
\<close>

record Closure =
  closure_userInput :: string
  closure_isLoading :: bool

definition render :: "'chat ChatWidget \<Rightarrow> Closure" where
  "render s = \<lparr>closure_userInput = userInput s, closure_isLoading = isLoading s\<rparr>"

text \<open>
  \<open>handleSendMessage\<close> up to its \<open>await\<close>: the guard, the three state updates and the
  call of \<open>chatRef.current.sendMessage\<close>. The guard and the user message read the
  captured \<open>userInput\<close> and \<open>isLoading\<close>; \<open>chatRef.current\<close> is read at call time; the
  updater \<open>prev => [...prev, userMessage]\<close> acts on the current messages. The second
  component is the message passed to the backend, \<open>None\<close> when no call is made.
\<close>

definition handleSendMessage ::
  "Closure \<Rightarrow> 'chat ChatWidget \<Rightarrow> 'chat ChatWidget \<times> string option" where
  "handleSendMessage c s =
     (if trim (closure_userInput c) = [] \<or> closure_isLoading c \<or> chatRef s = None then (s, None)
      else
        (s\<lparr>messages := messages s @
                         [\<lparr>role = User, content = closure_userInput c, sources = None\<rparr>],
           userInput := [],
           isLoading := True\<rparr>,
         Some (closure_userInput c)))"

text \<open>\<open>response.candidates?.[0]?.groundingMetadata\<close>\<close>

definition response_groundingMetadata :: "GenerateContentResponse \<Rightarrow> GroundingMetadata option" where
  "response_groundingMetadata response =
     (case candidates response of
        None \<Rightarrow> None
      | Some [] \<Rightarrow> None
      | Some (c # _) \<Rightarrow> groundingMetadata c)"

text \<open>
  The filter predicate \<open>!!(web?.uri && web.title)\<close> is a type guard: an entry that
  passes is a \<open>{uri, title}\<close> object, an entry that fails is dropped.
\<close>

definition web_source :: "GroundingChunkWeb option \<Rightarrow> Source option" where
  "web_source w =
     (case w of
        None \<Rightarrow> None
      | Some w' \<Rightarrow>
          (case web_uri w' of
             None \<Rightarrow> None
           | Some u \<Rightarrow>
               if u = [] then None
               else (case web_title w' of
                       None \<Rightarrow> None
                     | Some t \<Rightarrow> if t = [] then None else Some \<lparr>uri = u, title = t\<rparr>)))"

text \<open>\<open>groundingMetadata?.groundingChunks?.map(chunk => chunk.web).filter(...)\<close>\<close>

definition response_sources :: "GenerateContentResponse \<Rightarrow> Source list option" where
  "response_sources response =
     (case response_groundingMetadata response of
        None \<Rightarrow> None
      | Some gm \<Rightarrow>
          (case groundingChunks gm of
             None \<Rightarrow> None
           | Some chunks \<Rightarrow> Some (List.map_filter web_source (map web chunks))))"

definition modelMessage :: "GenerateContentResponse \<Rightarrow> Message" where
  "modelMessage response =
     \<lparr>role = Model,
      content = response_text response,
      sources = (case response_sources response of
                   None \<Rightarrow> None
                 | Some srcs \<Rightarrow> if length srcs > 0 then Some srcs else None)\<rparr>"

definition errorMessage :: Message where
  "errorMessage =
     \<lparr>role = Error, content = ''Sorry, something went wrong. Please try again.'', sources = None\<rparr>"

text \<open>
  \<open>handleSendMessage\<close> after the \<open>await\<close>: the rest of the try block when the promise
  resolves, the catch block when it rejects, and the finally block on both paths.
\<close>

definition handleSendMessage_settled :: "outcome \<Rightarrow> 'chat ChatWidget \<Rightarrow> 'chat ChatWidget" where
  "handleSendMessage_settled out s =
     (let s1 = (case out of
                  Resolves response \<Rightarrow> s\<lparr>messages := messages s @ [modelMessage response]\<rparr>
                | Rejects e \<Rightarrow> s\<lparr>messages := messages s @ [errorMessage]\<rparr>)
      in s1\<lparr>isLoading := False\<rparr>)"

section \<open>The widget as an event-driven machine\<close>

text \<open>
  Everything that happens after mounting is one of these events. A configuration is the
  component state, the values captured by the current \<open>handleSendMessage\<close> callback, and
  the messages of the \<open>sendMessage\<close> calls that have not settled yet. A state update
  changes the state at once; the callback sees it only after the next \<open>Rerender\<close>. A
  settlement without an outstanding call does not occur and is ignored; a throw inside
  the \<open>onresult\<close> handler leaves the state as it was.
\<close>

datatype event =
    Change string
  | Rerender
  | SendInvoked
  | Settled outcome
  | SpeechStart
  | SpeechEnd
  | SpeechResult SpeechRecognitionEvent
  | SpeechError SpeechRecognitionErrorEvent

fun step ::
  "event \<Rightarrow> 'chat ChatWidget \<times> Closure \<times> string list \<Rightarrow>
   'chat ChatWidget \<times> Closure \<times> string list" where
  "step (Change v) (s, c, pending) = (onChange v s, c, pending)"
| "step Rerender (s, c, pending) = (s, render s, pending)"
| "step SendInvoked (s, c, pending) =
     (case handleSendMessage c s of
        (s', None) \<Rightarrow> (s', c, pending)
      | (s', Some m) \<Rightarrow> (s', c, pending @ [m]))"
| "step (Settled out) (s, c, pending) =
     (case pending of
        [] \<Rightarrow> (s, c, pending)
      | _ # rest \<Rightarrow> (handleSendMessage_settled out s, c, rest))"
| "step SpeechStart (s, c, pending) = (onstart s, c, pending)"
| "step SpeechEnd (s, c, pending) = (onend s, c, pending)"
| "step (SpeechResult ev) (s, c, pending) =
     (case onresult ev s of Inl e \<Rightarrow> (s, c, pending) | Inr s' \<Rightarrow> (s', c, pending))"
| "step (SpeechError ev) (s, c, pending) = (onerror ev s, c, pending)"

definition run ::
  "event list \<Rightarrow> 'chat ChatWidget \<times> Closure \<times> string list \<Rightarrow>
   'chat ChatWidget \<times> Closure \<times> string list" where
  "run evs cfg = fold step evs cfg"

text \<open>
  One send made on its own: the text is entered, the component renders, the send is
  invoked, the call settles.
\<close>

definition send_events :: "string \<times> outcome \<Rightarrow> event list" where
  "send_events x = [Change (fst x), Rerender, SendInvoked, Settled (snd x)]"

definition replyMessage :: "outcome \<Rightarrow> Message" where
  "replyMessage out = (case out of Resolves response \<Rightarrow> modelMessage response | Rejects e \<Rightarrow> errorMessage)"

section \<open>Vocabulary of the specification\<close>

text \<open>
  History reconstruction as the specification words it: walk the turns in order, leave
  out every \<open>error\<close> turn, keep role and text of the others.
\<close>

fun history_without_errors :: "Message list \<Rightarrow> Content list" where
  "history_without_errors [] = []"
| "history_without_errors (m # ms) =
     (if role m = Error then history_without_errors ms
      else \<lparr>turn_role = role m, parts = [\<lparr>part_text = content m\<rparr>]\<rparr> # history_without_errors ms)"

text \<open>
  The backend's grounding citation list,
  \<open>candidates[0].groundingMetadata.groundingChunks[].web\<close>, empty when a link is absent.
\<close>

definition grounding_citations :: "GenerateContentResponse \<Rightarrow> GroundingChunkWeb option list" where
  "grounding_citations response =
     (case candidates response of
        Some (c # _) \<Rightarrow>
          (case groundingMetadata c of
             Some gm \<Rightarrow> (case groundingChunks gm of Some chunks \<Rightarrow> map web chunks | None \<Rightarrow> [])
           | None \<Rightarrow> [])
      | _ \<Rightarrow> [])"

text \<open>A citation entry with both a non-empty URI and a non-empty title.\<close>

definition has_uri_and_title :: "GroundingChunkWeb option \<Rightarrow> bool" where
  "has_uri_and_title w =
     (case w of
        None \<Rightarrow> False
      | Some w' \<Rightarrow>
          (case web_uri w' of None \<Rightarrow> False | Some u \<Rightarrow> u \<noteq> []) \<and>
          (case web_title w' of None \<Rightarrow> False | Some t \<Rightarrow> t \<noteq> []))"

text \<open>A source of a Message, read back as the citation entry it came from.\<close>

definition Source_web :: "Source \<Rightarrow> GroundingChunkWeb option" where
  "Source_web src = Some \<lparr>web_uri = Some (uri src), web_title = Some (title src)\<rparr>"

text \<open>The three preconditions of a send: the negation of the guard.\<close>

definition send_accepted :: "'chat ChatWidget \<Rightarrow> bool" where
  "send_accepted s = (trim (userInput s) \<noteq> [] \<and> \<not> isLoading s \<and> chatRef s \<noteq> None)"

definition userMessage :: "string \<Rightarrow> Message" where
  "userMessage t = \<lparr>role = User, content = t, sources = None\<rparr>"

section \<open>Example inputs\<close>

definition widget :: "string \<Rightarrow> bool \<Rightarrow> nat option \<Rightarrow> nat ChatWidget" where
  "widget input loading chat =
     \<lparr>messages = [initialMessage], userInput = input, isLoading = loading,
      isRecording = False, chatRef = chat\<rparr>"


definition grounded_response :: GenerateContentResponse where
  "grounded_response =
     \<lparr>response_text = ''We offer cost planning.'',
      candidates = Some [\<lparr>groundingMetadata = Some \<lparr>groundingChunks = Some
        [\<lparr>web = Some \<lparr>web_uri = Some ''https://www.asasqs.com.my'', web_title = Some ''ASASQS''\<rparr>\<rparr>,
         \<lparr>web = Some \<lparr>web_uri = Some ''https://example.org'', web_title = Some []\<rparr>\<rparr>,
         \<lparr>web = Some \<lparr>web_uri = None, web_title = Some ''No link''\<rparr>\<rparr>,
         \<lparr>web = None\<rparr>]\<rparr>\<rparr>]\<rparr>"

definition plain_response :: GenerateContentResponse where
  "plain_response = \<lparr>response_text = ''Hello again.'', candidates = None\<rparr>"

text \<open>An SDK constructor that insists on a credential, and a session factory that succeeds.\<close>

definition GoogleGenAI_requires_key :: "string option \<Rightarrow> exn + string" where
  "GoogleGenAI_requires_key apiKey =
     (case apiKey of
        None \<Rightarrow> Inl (ApiError ''An API Key must be set when running in a browser'')
      | Some k \<Rightarrow> Inr k)"

definition chats_create_ok :: "string \<Rightarrow> CreateChatParameters \<Rightarrow> exn + nat" where
  "chats_create_ok ai params = Inr (length (history params))"

section \<open>Helper lemmas\<close>

lemma dropWhile_all: "(\<forall>x \<in> set (dropWhile P xs). P x) \<longleftrightarrow> (\<forall>x \<in> set xs. P x)"
  by (induction xs) auto

lemma trim_empty_iff: "trim s = [] \<longleftrightarrow> (\<forall>c \<in> set s. isWhiteSpace c)"
proof -
  have "trim s = [] \<longleftrightarrow> (\<forall>c \<in> set (dropWhile isWhiteSpace s). isWhiteSpace c)"
    by (simp add: trim_def)
  then show ?thesis
    by (simp only: dropWhile_all)
qed

lemma settled_messages:
  "messages (handleSendMessage_settled out s) = messages s @ [replyMessage out]"
  by (cases out) (simp_all add: handleSendMessage_settled_def replyMessage_def Let_def)

lemma settled_frame:
  "userInput (handleSendMessage_settled out s) = userInput s"
  "isLoading (handleSendMessage_settled out s) = False"
  "chatRef (handleSendMessage_settled out s) = chatRef s"
  "isRecording (handleSendMessage_settled out s) = isRecording s"
  by (cases out; simp add: handleSendMessage_settled_def Let_def)+

lemma accepted_send:
  assumes "send_accepted s"
  shows "handleSendMessage (render s) s =
           (s\<lparr>messages := messages s @ [userMessage (userInput s)],
              userInput := [], isLoading := True\<rparr>, Some (userInput s))"
  using assms by (simp add: handleSendMessage_def render_def send_accepted_def userMessage_def)

lemma replyMessage_role: "role (replyMessage out) = Model \<or> role (replyMessage out) = Error"
  by (cases out) (simp_all add: replyMessage_def modelMessage_def errorMessage_def)

lemma run_append: "run (xs @ ys) cfg = run ys (run xs cfg)"
  by (simp add: run_def)

section \<open>Voice input adapter\<close>

text \<open>
  C8. For a result event whose first alternative of its first result carries the
  transcript \<open>t\<close>, and any pending input \<open>p\<close>: the handler does not throw, the new pending
  input is \<open>p\<close>, one space and \<open>t\<close> when \<open>p\<close> is non-empty and exactly \<open>t\<close> when \<open>p\<close> is
  empty, the messages are unchanged, and no send is issued.
\<close>

theorem onresult_appends_transcript:
  assumes "results event = (alt # alts) # rest" and "transcript alt = t"
  shows "\<exists>s'. onresult event s = Inr s'
           \<and> userInput s' = (if userInput s = [] then t else userInput s @ '' '' @ t)
           \<and> messages s' = messages s
           \<and> step (SpeechResult event) (s, c, pending) = (s', c, pending)"
  using assms by (simp add: onresult_def first_transcript_def)

theorem onresult_appends_transcript_witness:
  "(\<exists>s'. onresult \<lparr>results = [[\<lparr>transcript = ''world''\<rparr>]]\<rparr> (widget ''hello'' False (Some 0)) = Inr s'
        \<and> userInput s' = ''hello world'' \<and> messages s' = [initialMessage])
   \<and> (\<exists>s'. onresult \<lparr>results = [[\<lparr>transcript = ''world''\<rparr>]]\<rparr> (widget [] False (Some 0)) = Inr s'
        \<and> userInput s' = ''world'' \<and> messages s' = [initialMessage])"
  using onresult_appends_transcript
          [of "\<lparr>results = [[\<lparr>transcript = ''world''\<rparr>]]\<rparr>" "\<lparr>transcript = ''world''\<rparr>" "[]" "[]"
              "''world''" "widget ''hello'' False (Some 0)" "render (widget ''hello'' False (Some 0))" "[]"]
        onresult_appends_transcript
          [of "\<lparr>results = [[\<lparr>transcript = ''world''\<rparr>]]\<rparr>" "\<lparr>transcript = ''world''\<rparr>" "[]" "[]"
              "''world''" "widget [] False (Some 0)" "render (widget [] False (Some 0))" "[]"]
  by (auto simp: widget_def)

text \<open>
  C9. For every error event the recording state is false afterwards. When the error code
  is \<open>not-allowed\<close> the messages gain exactly one message, of role \<open>error\<close>, with the
  microphone text; for every other code the messages are unchanged. So one \<open>error\<close>
  message is gained if and only if the code is \<open>not-allowed\<close>.
\<close>

theorem onerror_resets_and_reports:
  "isRecording (onerror event s) = False
   \<and> (error event = ''not-allowed'' \<longrightarrow>
        messages (onerror event s) =
          messages s @ [\<lparr>role = Error,
                         content = ''Microphone access was denied. Please allow it in your browser settings to use voice input.'',
                         sources = None\<rparr>])
   \<and> (error event \<noteq> ''not-allowed'' \<longrightarrow> messages (onerror event s) = messages s)
   \<and> ((\<exists>m. messages (onerror event s) = messages s @ [m] \<and> role m = Error)
        \<longleftrightarrow> error event = ''not-allowed'')"
  by (simp add: onerror_def onerror_message_def Let_def)

theorem onerror_resets_and_reports_witness:
  "isRecording (onerror \<lparr>error = ''not-allowed''\<rparr> (onstart (widget [] False (Some 0)))) = False
   \<and> messages (onerror \<lparr>error = ''not-allowed''\<rparr> (onstart (widget [] False (Some 0)))) =
       [initialMessage, onerror_message]
   \<and> isRecording (onerror \<lparr>error = ''network''\<rparr> (onstart (widget [] False (Some 0)))) = False
   \<and> messages (onerror \<lparr>error = ''network''\<rparr> (onstart (widget [] False (Some 0)))) = [initialMessage]"
  using onerror_resets_and_reports [of "\<lparr>error = ''not-allowed''\<rparr>" "onstart (widget [] False (Some 0))"]
        onerror_resets_and_reports [of "\<lparr>error = ''network''\<rparr>" "onstart (widget [] False (Some 0))"]
  by (simp add: widget_def onstart_def onerror_message_def)

section \<open>Session initializer: history reconstruction\<close>

lemma history_spec_eq: "initChat_history msgs = history_without_errors msgs"
proof (induction msgs)
  case Nil
  show ?case by (simp add: initChat_history_def)
next
  case (Cons m ms)
  then show ?case by (cases "role m") (simp_all add: initChat_history_def)
qed

lemma history_roles:
  "t \<in> set (initChat_history msgs) \<Longrightarrow> turn_role t = User \<or> turn_role t = Model"
  by (auto simp: initChat_history_def)

lemma history_subseq:
  "subseq (map (\<lambda>t. (turn_role t, map part_text (parts t))) (initChat_history msgs))
          (map (\<lambda>m. (role m, [content m])) msgs)"
proof -
  have "map (\<lambda>t. (turn_role t, map part_text (parts t))) (initChat_history msgs)
        = map (\<lambda>m. (role m, [content m])) (filter (\<lambda>msg. role msg = User \<or> role msg = Model) msgs)"
    by (simp add: initChat_history_def comp_def)
  then show ?thesis
    by (simp add: subseq_map)
qed

text \<open>
  C2. For every sequence of Messages, the history built by \<open>initChat\<close> is the sequence
  obtained by walking the turns in order, dropping each \<open>error\<close> turn and mapping every
  other turn to its role and its text; every turn of the result has role \<open>user\<close> or
  \<open>model\<close>; and the (role, text) pairs of the result are a subsequence, in the same
  relative order, of the (role, text) pairs of the input.
\<close>

theorem initChat_history_excludes_errors:
  "initChat_history msgs = history_without_errors msgs
   \<and> (\<forall>t \<in> set (initChat_history msgs). turn_role t = User \<or> turn_role t = Model)
   \<and> subseq (map (\<lambda>t. (turn_role t, map part_text (parts t))) (initChat_history msgs))
            (map (\<lambda>m. (role m, [content m])) msgs)"
  using history_spec_eq history_roles history_subseq by blast

theorem initChat_history_excludes_errors_witness:
  "initChat_history [userMessage ''Hi'', errorMessage, modelMessage plain_response, onerror_message,
                     userMessage ''Bye''] =
     [\<lparr>turn_role = User, parts = [\<lparr>part_text = ''Hi''\<rparr>]\<rparr>,
      \<lparr>turn_role = Model, parts = [\<lparr>part_text = ''Hello again.''\<rparr>]\<rparr>,
      \<lparr>turn_role = User, parts = [\<lparr>part_text = ''Bye''\<rparr>]\<rparr>]"
  using initChat_history_excludes_errors
          [of "[userMessage ''Hi'', errorMessage, modelMessage plain_response, onerror_message,
                userMessage ''Bye'']"]
  by (simp add: userMessage_def errorMessage_def modelMessage_def plain_response_def
        onerror_message_def)

section \<open>Conversation controller\<close>

text \<open>
  The guard, on the values it reads: when the captured input trims to the empty string,
  or the captured loading flag is set, or the session handle is unset at call time, the
  invocation returns the state as it was and issues no backend call.
\<close>

lemma handleSendMessage_guard:
  assumes "trim (closure_userInput c) = [] \<or> (\<forall>x \<in> set (closure_userInput c). isWhiteSpace x)
           \<or> closure_isLoading c \<or> chatRef s = None"
  shows "handleSendMessage c s = (s, None) \<and> step SendInvoked (s, c, pending) = (s, c, pending)"
  using assms by (auto simp: handleSendMessage_def trim_empty_iff)

lemma handleSendMessage_guard_examples:
  "handleSendMessage (render (widget [CHR 0x20, CHR 0x09, CHR 0x0A] False (Some 0)))
       (widget [CHR 0x20, CHR 0x09, CHR 0x0A] False (Some 0)) =
     (widget [CHR 0x20, CHR 0x09, CHR 0x0A] False (Some 0), None)
   \<and> handleSendMessage (render (widget ''hello'' True (Some 0))) (widget ''hello'' True (Some 0)) =
     (widget ''hello'' True (Some 0), None)
   \<and> handleSendMessage (render (widget ''hello'' False None)) (widget ''hello'' False None) =
     (widget ''hello'' False None, None)"
  by (simp add: handleSendMessage_def render_def widget_def trim_def isWhiteSpace_def)


lemma web_source_Some:
  "web_source w = Some src \<Longrightarrow> has_uri_and_title w \<and> Source_web src = w"
  by (auto simp: web_source_def has_uri_and_title_def Source_web_def
           split: option.splits if_splits)

lemma web_source_None: "web_source w = None \<Longrightarrow> \<not> has_uri_and_title w"
  by (auto simp: web_source_def has_uri_and_title_def split: option.splits if_splits)

lemma map_filter_web_source:
  "map Source_web (List.map_filter web_source ws) = filter has_uri_and_title ws"
proof (induction ws)
  case Nil
  show ?case by simp
next
  case (Cons w ws)
  show ?case
  proof (cases "web_source w")
    case None
    with Cons web_source_None [OF None] show ?thesis by simp
  next
    case (Some src)
    with Cons web_source_Some [OF Some] show ?thesis by simp
  qed
qed

lemma response_sources_citations:
  "map Source_web (case response_sources r of None \<Rightarrow> [] | Some srcs \<Rightarrow> srcs)
     = filter has_uri_and_title (grounding_citations r)"
  by (simp add: response_sources_def response_groundingMetadata_def grounding_citations_def
        map_filter_web_source split: option.splits list.splits)

lemma modelMessage_sources:
  "(case sources (modelMessage r) of
      None \<Rightarrow> filter has_uri_and_title (grounding_citations r) = []
    | Some srcs \<Rightarrow> srcs \<noteq> [] \<and> map Source_web srcs = filter has_uri_and_title (grounding_citations r))"
  using response_sources_citations [of r]
  by (auto simp: modelMessage_def split: option.splits)

text \<open>
  C4. When the backend call resolves with response \<open>r\<close>, exactly one message is appended;
  its role is \<open>model\<close> and its content is the reply text of \<open>r\<close>. Its \<open>sources\<close> field is
  absent exactly when no citation entry of \<open>r\<close> has both a non-empty URI and a non-empty
  title; otherwise it is present, non-empty, and its entries are, in order, exactly the
  citation entries of \<open>r\<close> that have both.
\<close>

theorem resolved_send_appends_model_message:
  "messages (handleSendMessage_settled (Resolves r) s) = messages s @ [modelMessage r]
   \<and> role (modelMessage r) = Model
   \<and> content (modelMessage r) = response_text r
   \<and> (case sources (modelMessage r) of
         None \<Rightarrow> filter has_uri_and_title (grounding_citations r) = []
       | Some srcs \<Rightarrow>
           srcs \<noteq> [] \<and> map Source_web srcs = filter has_uri_and_title (grounding_citations r))"
  using modelMessage_sources [of r]
  by (simp add: settled_messages replyMessage_def) (simp add: modelMessage_def)

theorem resolved_send_appends_model_message_witness:
  "messages (handleSendMessage_settled (Resolves grounded_response) (widget [] True (Some 0))) =
     [initialMessage,
      \<lparr>role = Model, content = ''We offer cost planning.'',
       sources = Some [\<lparr>uri = ''https://www.asasqs.com.my'', title = ''ASASQS''\<rparr>]\<rparr>]
   \<and> messages (handleSendMessage_settled (Resolves plain_response) (widget [] True (Some 0))) =
     [initialMessage, \<lparr>role = Model, content = ''Hello again.'', sources = None\<rparr>]"
  using resolved_send_appends_model_message [of grounded_response "widget [] True (Some 0)"]
        resolved_send_appends_model_message [of plain_response "widget [] True (Some 0)"]
  by (simp add: modelMessage_def response_sources_def response_groundingMetadata_def
        grounded_response_def plain_response_def web_source_def widget_def)

text \<open>
  C5. When the backend call rejects, the catch path appends exactly one message, of role
  \<open>error\<close> and content "Sorry, something went wrong. Please try again."; whichever way
  the call settles, the loading flag is false afterwards. For a send invoked on a
  rendered state that passes the guard this means: the messages afterwards are the messages before, the user's turn and
  that one \<open>error\<close> message, the number of \<open>error\<close> messages has grown by exactly one,
  and the loading flag, set while the call was outstanding, is false again.
\<close>

theorem rejected_send_appends_error:
  "messages (handleSendMessage_settled (Rejects e) s') =
     messages s' @ [\<lparr>role = Error, content = ''Sorry, something went wrong. Please try again.'',
                     sources = None\<rparr>]
   \<and> isLoading (handleSendMessage_settled out s') = False
   \<and> (send_accepted s \<longrightarrow>
        snd (handleSendMessage (render s) s) = Some (userInput s)
      \<and> messages (handleSendMessage_settled (Rejects e) (fst (handleSendMessage (render s) s))) =
          messages s @ [\<lparr>role = User, content = userInput s, sources = None\<rparr>,
                        \<lparr>role = Error, content = ''Sorry, something went wrong. Please try again.'',
                         sources = None\<rparr>]
      \<and> length (filter (\<lambda>m. role m = Error)
                   (messages (handleSendMessage_settled (Rejects e)
                                (fst (handleSendMessage (render s) s)))))
          = length (filter (\<lambda>m. role m = Error) (messages s)) + 1
      \<and> isLoading (fst (handleSendMessage (render s) s))
      \<and> \<not> isLoading (handleSendMessage_settled out (fst (handleSendMessage (render s) s))))"
  by (simp add: settled_messages settled_frame accepted_send replyMessage_def errorMessage_def
        userMessage_def)

theorem rejected_send_appends_error_witness:
  "send_accepted (widget ''hello'' False (Some 0))
   \<and> snd (handleSendMessage (render (widget ''hello'' False (Some 0))) (widget ''hello'' False (Some 0))) = Some ''hello''
   \<and> messages (handleSendMessage_settled (Rejects (ApiError ''503''))
                 (fst (handleSendMessage (render (widget ''hello'' False (Some 0))) (widget ''hello'' False (Some 0))))) =
       [initialMessage, userMessage ''hello'', errorMessage]
   \<and> \<not> isLoading (handleSendMessage_settled (Rejects (ApiError ''503''))
                 (fst (handleSendMessage (render (widget ''hello'' False (Some 0))) (widget ''hello'' False (Some 0)))))
   \<and> \<not> isLoading (handleSendMessage_settled (Resolves plain_response)
                 (fst (handleSendMessage (render (widget ''hello'' False (Some 0))) (widget ''hello'' False (Some 0)))))"
proof -
  have accepted: "send_accepted (widget ''hello'' False (Some 0))"
    by (simp add: send_accepted_def widget_def trim_def isWhiteSpace_def)
  show ?thesis
    using accepted
      rejected_send_appends_error
        [of "ApiError ''503''" "widget ''hello'' False (Some 0)" "Rejects (ApiError ''503'')"
            "widget ''hello'' False (Some 0)"]
      rejected_send_appends_error
        [of "ApiError ''503''" "widget ''hello'' False (Some 0)" "Resolves plain_response"
            "widget ''hello'' False (Some 0)"]
    by (simp add: widget_def userMessage_def errorMessage_def)
qed

text \<open>
  C10. The catch path leaves the pending input as it finds it. A send invoked on a
  rendered state that passes the guard submits the pending input and clears it before the call; when that call rejects,
  the pending input is still empty after the send has completed, and so differs from
  the submitted text.
\<close>

theorem failed_send_leaves_input_empty:
  "userInput (handleSendMessage_settled (Rejects e) s') = userInput s'
   \<and> (send_accepted s \<longrightarrow>
        snd (handleSendMessage (render s) s) = Some (userInput s)
      \<and> userInput (fst (handleSendMessage (render s) s)) = []
      \<and> userInput (handleSendMessage_settled (Rejects e) (fst (handleSendMessage (render s) s))) = []
      \<and> userInput (handleSendMessage_settled (Rejects e) (fst (handleSendMessage (render s) s)))
          \<noteq> userInput s
      \<and> fst (run [SendInvoked, Settled (Rejects e)] (s, render s, [])) =
          handleSendMessage_settled (Rejects e) (fst (handleSendMessage (render s) s)))"
  by (auto simp: settled_frame accepted_send send_accepted_def trim_def run_def)

theorem failed_send_leaves_input_empty_witness:
  "send_accepted (widget ''hello'' False (Some 0))
   \<and> snd (handleSendMessage (render (widget ''hello'' False (Some 0))) (widget ''hello'' False (Some 0))) = Some ''hello''
   \<and> userInput (fst (run [SendInvoked, Settled (Rejects (ApiError ''503''))]
                        (widget ''hello'' False (Some 0), render (widget ''hello'' False (Some 0)), [])))
       = []"
proof -
  have accepted: "send_accepted (widget ''hello'' False (Some 0))"
    by (simp add: send_accepted_def widget_def trim_def isWhiteSpace_def)
  show ?thesis
    using accepted
      failed_send_leaves_input_empty
        [of "ApiError ''503''" "widget ''hello'' False (Some 0)" "widget ''hello'' False (Some 0)"]
    by (simp add: widget_def)
qed

lemma run_one_send:
  assumes "chatRef s \<noteq> None" and "\<not> isLoading s" and "trim t \<noteq> []"
  shows "\<exists>s' c'. run (send_events (t, out)) (s, c, []) = (s', c', [])
            \<and> messages s' = messages s @ [userMessage t, replyMessage out]
            \<and> chatRef s' = chatRef s \<and> \<not> isLoading s'"
  using assms
  by (simp add: run_def send_events_def onChange_def render_def handleSendMessage_def
        settled_messages settled_frame userMessage_def)

lemma run_sends:
  assumes "chatRef s \<noteq> None" and "\<not> isLoading s" and "\<forall>x \<in> set xs. trim (fst x) \<noteq> []"
  shows "\<exists>s' c'. run (concat (map send_events xs)) (s, c, []) = (s', c', [])
            \<and> messages s' =
                messages s @ concat (map (\<lambda>x. [userMessage (fst x), replyMessage (snd x)]) xs)
            \<and> chatRef s' = chatRef s \<and> \<not> isLoading s'"
  using assms
proof (induction xs arbitrary: s c)
  case Nil
  then show ?case by (simp add: run_def)
next
  case (Cons x xs)
  obtain t out where x: "x = (t, out)" by (cases x)
  from Cons.prems x have "trim t \<noteq> []" by simp
  from run_one_send [OF Cons.prems(1) Cons.prems(2) this, of out c]
  obtain s1 c1 where s1: "run (send_events (t, out)) (s, c, []) = (s1, c1, [])"
    "messages s1 = messages s @ [userMessage t, replyMessage out]"
    "chatRef s1 = chatRef s" "\<not> isLoading s1" by blast
  from Cons.prems s1 have "chatRef s1 \<noteq> None" and "\<forall>x \<in> set xs. trim (fst x) \<noteq> []" by simp_all
  from Cons.IH [OF this(1) s1(4) this(2), of c1]
  obtain s' c' where s': "run (concat (map send_events xs)) (s1, c1, []) = (s', c', [])"
    "messages s' = messages s1 @ concat (map (\<lambda>x. [userMessage (fst x), replyMessage (snd x)]) xs)"
    "chatRef s' = chatRef s1" "\<not> isLoading s'" by blast
  show ?case using s1 s' x by (simp add: run_append)
qed

lemma count_users:
  "length (filter (\<lambda>m. role m = User)
     (concat (map (\<lambda>x. [userMessage (fst x), replyMessage (snd x)]) xs))) = length xs"
proof (induction xs)
  case Nil show ?case by simp
next
  case (Cons x xs)
  with replyMessage_role [of "snd x"] show ?case by (auto simp: userMessage_def)
qed

lemma count_replies:
  "length (filter (\<lambda>m. role m = Model \<or> role m = Error)
     (concat (map (\<lambda>x. [userMessage (fst x), replyMessage (snd x)]) xs))) = length xs"
proof (induction xs)
  case Nil show ?case by simp
next
  case (Cons x xs)
  with replyMessage_role [of "snd x"] show ?case by (auto simp: userMessage_def)
qed

text \<open>
  Sends made one at a time. Start from any state whose session handle is set and in which
  no send is in flight, and let N sends follow one another, each entered, rendered,
  invoked and settled before the next is entered. Afterwards the messages are the initial
  messages followed, send by send in the order made, by the \<open>user\<close> message of the send
  and then its reply, a \<open>model\<close> message when the call resolved and an \<open>error\<close> message
  when it rejected; no call is left outstanding.
\<close>

lemma sequential_sends_interleave:
  assumes "chatRef s \<noteq> None" and "\<not> isLoading s" and "\<forall>x \<in> set xs. trim (fst x) \<noteq> []"
  shows "\<exists>added.
           messages (fst (run (concat (map send_events xs)) (s, c, []))) = messages s @ added
         \<and> snd (snd (run (concat (map send_events xs)) (s, c, []))) = []
         \<and> added = concat (map (\<lambda>x. [userMessage (fst x), replyMessage (snd x)]) xs)
         \<and> length added = 2 * length xs
         \<and> length (filter (\<lambda>m. role m = User) added) = length xs
         \<and> length (filter (\<lambda>m. role m = Model \<or> role m = Error) added) = length xs
         \<and> (\<forall>i < length xs.
               added ! (2 * i) = \<lparr>role = User, content = fst (xs ! i), sources = None\<rparr>
             \<and> added ! (2 * i + 1) = replyMessage (snd (xs ! i))
             \<and> (role (added ! (2 * i + 1)) = Model \<or> role (added ! (2 * i + 1)) = Error))"
proof -
  let ?added = "concat (map (\<lambda>x. [userMessage (fst x), replyMessage (snd x)]) xs)"
  have len: "length ?added = 2 * length xs"
    by (induction xs) simp_all
  have nth: "?added ! (2 * i) = userMessage (fst (xs ! i))
             \<and> ?added ! (2 * i + 1) = replyMessage (snd (xs ! i))" if "i < length xs" for i
    using that
  proof (induction xs arbitrary: i)
    case Nil
    then show ?case by simp
  next
    case (Cons x xs)
    show ?case
    proof (cases i)
      case 0
      then show ?thesis by simp
    next
      case (Suc j)
      with Cons.prems have "j < length xs" by simp
      from Cons.IH [OF this] Suc show ?thesis by simp
    qed
  qed
  from run_sends [OF assms, of c] len count_users [of xs] count_replies [of xs] nth replyMessage_role
  show ?thesis
    by (auto simp: userMessage_def)
qed


section \<open>Session initializer: failure\<close>

lemma step_chatRef: "chatRef (fst (step ev cfg)) = chatRef (fst cfg)"
proof (cases cfg)
  case (fields s c pending)
  then show ?thesis
    by (cases ev)
       (auto simp: onChange_def handleSendMessage_def settled_frame onstart_def onend_def
          onresult_def onerror_def Let_def split: list.splits sum.splits)
qed

lemma step_no_call:
  assumes "chatRef (fst cfg) = None" and "snd (snd cfg) = []"
  shows "snd (snd (step ev cfg)) = []"
proof (cases cfg)
  case (fields s c pending)
  with assms show ?thesis
    by (cases ev) (auto simp: handleSendMessage_def split: sum.splits)
qed

lemma run_unset:
  assumes "chatRef (fst cfg) = None" and "snd (snd cfg) = []"
  shows "chatRef (fst (run evs cfg)) = None \<and> snd (snd (run evs cfg)) = []"
  using assms
proof (induction evs arbitrary: cfg)
  case Nil
  then show ?case by (simp add: run_def)
next
  case (Cons ev evs)
  have "chatRef (fst (step ev cfg)) = None" using Cons.prems by (simp add: step_chatRef)
  moreover have "snd (snd (step ev cfg)) = []" using Cons.prems by (rule step_no_call)
  ultimately have "chatRef (fst (run evs (step ev cfg))) = None
                   \<and> snd (snd (run evs (step ev cfg))) = []"
    by (rule Cons.IH)
  then show ?case by (simp add: run_def)
qed

text \<open>
  C7. Let session construction fail at startup: the SDK constructor throws, or it returns
  and \<open>chats.create\<close> throws. Then \<open>initChat\<close>, run on the state at mount, does not throw;
  it appends exactly one message, of role \<open>error\<close>, to the loaded messages; the session
  handle is still unset; and after every sequence of later events, renders included, the
  handle is unset, no backend call has been issued, and an invocation of
  \<open>handleSendMessage\<close>, whatever values its callback captured, returns the state as it is
  and issues no call.
\<close>

theorem init_failure_disables_sends:
  assumes "new_GoogleGenAI apiKey = Inl e
           \<or> (\<exists>ai. new_GoogleGenAI apiKey = Inr ai
                 \<and> chats_create ai (initChat_parameters msgs) = Inl e)"
  shows "\<exists>s'. initChat new_GoogleGenAI chats_create apiKey (mounted msgs) = Inr s'
           \<and> messages s' = msgs @ [\<lparr>role = Error,
                 content = ''Failed to initialize the chat assistant. Please check the API key and configuration.'',
                 sources = None\<rparr>]
           \<and> chatRef s' = None
           \<and> (\<forall>evs c c'. chatRef (fst (run evs (s', c, []))) = None
                    \<and> snd (snd (run evs (s', c, []))) = []
                    \<and> handleSendMessage c' (fst (run evs (s', c, []))) =
                        (fst (run evs (s', c, [])), None))"
proof -
  let ?s' = "(mounted msgs :: 'b ChatWidget)\<lparr>messages := msgs @ [initChat_errorMessage]\<rparr>"
  have init: "initChat new_GoogleGenAI chats_create apiKey (mounted msgs) = Inr ?s'"
    using assms by (auto simp: initChat_def try_catch_def mounted_def)
  have unset: "chatRef ?s' = None" by (simp add: mounted_def)
  have later: "chatRef (fst (run evs (?s', c, []))) = None \<and> snd (snd (run evs (?s', c, []))) = []"
    for evs c
    using run_unset [of "(?s', c, [])" evs] unset by simp
  have noop: "handleSendMessage c' (fst (run evs (?s', c, []))) = (fst (run evs (?s', c, [])), None)"
    for evs c c'
    using later [of evs c] by (simp add: handleSendMessage_def)
  show ?thesis
    using init unset later noop by (simp add: initChat_errorMessage_def mounted_def)
qed

theorem init_failure_disables_sends_witness:
  "\<exists>s'. initChat GoogleGenAI_requires_key chats_create_ok None (mounted [initialMessage]) = Inr s'
       \<and> messages s' = [initialMessage, initChat_errorMessage]
       \<and> chatRef s' = None
       \<and> run [Change ''hello'', Rerender, SendInvoked] (s', render s', []) =
           (onChange ''hello'' s', render (onChange ''hello'' s'), [])"
proof -
  have fails: "GoogleGenAI_requires_key None =
                 Inl (ApiError ''An API Key must be set when running in a browser'')
               \<or> (\<exists>ai. GoogleGenAI_requires_key None = Inr ai
                     \<and> chats_create_ok ai (initChat_parameters [initialMessage]) =
                         Inl (ApiError ''An API Key must be set when running in a browser''))"
    by (simp add: GoogleGenAI_requires_key_def)
  from init_failure_disables_sends
         [where new_GoogleGenAI = GoogleGenAI_requires_key and chats_create = chats_create_ok
            and apiKey = None and msgs = "[initialMessage]"
            and e = "ApiError ''An API Key must be set when running in a browser''", OF fails]
  obtain s' :: "nat ChatWidget" where
    s': "initChat GoogleGenAI_requires_key chats_create_ok None (mounted [initialMessage]) = Inr s'"
      "messages s' = [initialMessage, initChat_errorMessage]"
      "chatRef s' = None"
      "\<And>c'. handleSendMessage c' (fst (run [Change ''hello'', Rerender] (s', render s', []))) =
         (fst (run [Change ''hello'', Rerender] (s', render s', [])), None)"
    by (auto simp: initChat_errorMessage_def)
  from s'(4) [of "render (onChange ''hello'' s')"]
  have "run [Change ''hello'', Rerender, SendInvoked] (s', render s', []) =
          (onChange ''hello'' s', render (onChange ''hello'' s'), [])"
    by (simp add: run_def)
  with s'(1-3) show ?thesis by blast
qed

section \<open>Message store: loading persisted messages\<close>

text \<open>
  C1, as stated, at a stored text whose structure is not that of a Message sequence: the
  array \<open>[42]\<close> is returned as the messages, not the default welcome sequence.
\<close>

theorem load_messages_unvalidated_counterexample:
  "load_messages (Items [(''chatWidgetMessages'', ''[42]'')]) (parse_only ''[42]'' (JArray [JNumber 42]))
     = Inr [JNumber 42]
   \<and> load_messages (Items [(''chatWidgetMessages'', ''[42]'')]) (parse_only ''[42]'' (JArray [JNumber 42]))
     \<noteq> Inr [Message_value initialMessage]"
  by (simp add: load_messages_def try_catch_def parse_only_def Message_value_def)

text \<open>
  C1 (amended). The startup load never throws. It returns exactly the single-element
  default welcome sequence when reading the storage throws, when the messages key is
  absent, when it holds the empty string, when it holds text that \<open>JSON.parse\<close> rejects,
  when it holds a value that is not an array, and when it holds the empty array. When it
  holds a non-empty array, the load returns that array as parsed, whatever its elements
  are.
\<close>

theorem load_messages_fallback:
  "(\<exists>vs. load_messages storage JSON_parse = Inr vs)
   \<and> role initialMessage = Model
   \<and> (getItem storage ''chatWidgetMessages'' = Inl e \<longrightarrow>
        load_messages storage JSON_parse = Inr [Message_value initialMessage])
   \<and> (getItem storage ''chatWidgetMessages'' = Inr None \<longrightarrow>
        load_messages storage JSON_parse = Inr [Message_value initialMessage])
   \<and> (getItem storage ''chatWidgetMessages'' = Inr (Some saved) \<longrightarrow>
        (saved = [] \<longrightarrow> load_messages storage JSON_parse = Inr [Message_value initialMessage])
      \<and> (JSON_parse saved = Inl e \<longrightarrow>
           load_messages storage JSON_parse = Inr [Message_value initialMessage])
      \<and> (JSON_parse saved = Inr v \<and> (\<forall>vs. v \<noteq> JArray vs) \<longrightarrow>
           load_messages storage JSON_parse = Inr [Message_value initialMessage])
      \<and> (JSON_parse saved = Inr (JArray []) \<longrightarrow>
           load_messages storage JSON_parse = Inr [Message_value initialMessage])
      \<and> (saved \<noteq> [] \<and> JSON_parse saved = Inr (JArray (x # xs)) \<longrightarrow>
           load_messages storage JSON_parse = Inr (x # xs)))"
  by (auto simp: load_messages_def try_catch_def initialMessage_def
           split: sum.splits option.splits jsvalue.splits)

theorem load_messages_fallback_witness:
  "load_messages Denied (parse_only ''[]'' (JArray [])) = Inr [Message_value initialMessage]
   \<and> load_messages (Items []) (parse_only ''[]'' (JArray [])) = Inr [Message_value initialMessage]
   \<and> load_messages (Items [(''chatWidgetMessages'', [])]) (parse_only ''[]'' (JArray []))
       = Inr [Message_value initialMessage]
   \<and> load_messages (Items [(''chatWidgetMessages'', ''{oops'')]) (parse_only ''[]'' (JArray []))
       = Inr [Message_value initialMessage]
   \<and> load_messages (Items [(''chatWidgetMessages'', ''{}'')]) (parse_only ''{}'' (JObject []))
       = Inr [Message_value initialMessage]
   \<and> load_messages (Items [(''chatWidgetMessages'', ''[]'')]) (parse_only ''[]'' (JArray []))
       = Inr [Message_value initialMessage]
   \<and> load_messages (Items [(''chatWidgetMessages'', ''[true]'')]) (parse_only ''[true]'' (JArray [JBoolean True]))
       = Inr [JBoolean True]"
  using load_messages_fallback [of Denied "parse_only ''[]'' (JArray [])" SecurityError]
    load_messages_fallback [of "Items []" "parse_only ''[]'' (JArray [])"]
    load_messages_fallback [of "Items [(''chatWidgetMessages'', [])]" "parse_only ''[]'' (JArray [])" _ "[]"]
    load_messages_fallback [of "Items [(''chatWidgetMessages'', ''{oops'')]" "parse_only ''[]'' (JArray [])"
                               SyntaxError "''{oops''"]
    load_messages_fallback [of "Items [(''chatWidgetMessages'', ''{}'')]" "parse_only ''{}'' (JObject [])"
                               _ "''{}''" "JObject []"]
    load_messages_fallback [of "Items [(''chatWidgetMessages'', ''[]'')]" "parse_only ''[]'' (JArray [])"
                               _ "''[]''"]
    load_messages_fallback [of "Items [(''chatWidgetMessages'', ''[true]'')]"
                               "parse_only ''[true]'' (JArray [JBoolean True])"
                               _ "''[true]''" _ "JBoolean True" "[]"]
  by (simp add: parse_only_def)

end
